theory Spec2Isabelle
  imports Main "HOL-Library.Sublist"
begin

section \<open>The static file server started by \<open>serve.py\<close>\<close>

text \<open>
  \<open>serve.py\<close> is a Python wrapper whose \<open>main\<close> installs dependencies, optionally
  builds, sets two environment variables and then runs an inline Node.js program with
  \<open>node -e\<close>. That program is a static file server: a table of MIME types, one request
  listener and a call of \<open>server.listen\<close>. The request listener is embedded below as a
  function of the request, of the directory \<open>__dirname\<close> and of what the file system
  answers. The functions of the Node.js \<open>path\<close> module it calls (\<open>path.join\<close>,
  \<open>path.extname\<close>) are part of the platform, not of the repository; they are modelled
  after the POSIX variant of that module.
\<close>

subsection \<open>Node.js \<open>path\<close> module, POSIX variant\<close>

text \<open>Splitting a path at every \<open>/\<close>; the result is never empty.\<close>

definition split_step :: "char \<Rightarrow> string list \<Rightarrow> string list" where
  "split_step c acc = (if c = CHR ''/'' then [] # acc else (c # hd acc) # tl acc)"

definition split_path :: "string \<Rightarrow> string list" where
  "split_path s = foldr split_step s [[]]"

text \<open>
  One step of \<open>normalizeString\<close>: empty segments and \<open>.\<close> are dropped, \<open>..\<close> removes
  the last kept segment unless there is none or it is itself \<open>..\<close>; then \<open>..\<close> is kept
  when the path is relative (\<open>allowAboveRoot\<close>) and dropped when it is absolute.
\<close>

definition normalize_step :: "bool \<Rightarrow> string list \<Rightarrow> string \<Rightarrow> string list" where
  "normalize_step allowAboveRoot res seg =
     (if seg = [] \<or> seg = ''.'' then res
      else if seg = ''..'' then
        (if res \<noteq> [] \<and> last res \<noteq> ''..'' then butlast res
         else if allowAboveRoot then res @ [''..'']
         else res)
      else res @ [seg])"

definition normalizeString :: "string \<Rightarrow> bool \<Rightarrow> string list" where
  "normalizeString path allowAboveRoot =
     foldl (normalize_step allowAboveRoot) [] (split_path path)"

fun join_segs :: "string list \<Rightarrow> string" where
  "join_segs [] = []"
| "join_segs [x] = x"
| "join_segs (x # y # ys) = x @ CHR ''/'' # join_segs (y # ys)"

definition normalize :: "string \<Rightarrow> string" where
  "normalize path =
     (if path = [] then ''.''
      else
        let isAbsolute = (hd path = CHR ''/'');
            trailingSeparator = (last path = CHR ''/'');
            p = join_segs (normalizeString path (\<not> isAbsolute))
        in if p = [] then
             (if isAbsolute then ''/'' else if trailingSeparator then ''./'' else ''.'')
           else (if isAbsolute then ''/'' else []) @ p
                @ (if trailingSeparator then ''/'' else []))"

text \<open>\<open>path.join\<close>: the non-empty arguments, separated by \<open>/\<close>, then normalised.\<close>

definition join :: "string list \<Rightarrow> string" where
  "join args =
     (let parts = filter (\<lambda>arg. arg \<noteq> []) args
      in if parts = [] then ''.'' else normalize (join_segs parts))"

text \<open>
  \<open>path.extname\<close> looks at the last component of the path, trailing separators
  ignored. It returns the text from the last \<open>.\<close> of that component to its end, and the
  empty string when the component has no \<open>.\<close>, when its only \<open>.\<close> is its first
  character, or when the component is \<open>..\<close>.
\<close>

definition last_component :: "string \<Rightarrow> string" where
  "last_component path =
     rev (takeWhile (\<lambda>c. c \<noteq> CHR ''/'') (dropWhile (\<lambda>c. c = CHR ''/'') (rev path)))"

definition component_ext :: "string \<Rightarrow> string" where
  "component_ext b =
     (let r = rev b;
          e = takeWhile (\<lambda>c. c \<noteq> CHR ''.'') r;
          rest = dropWhile (\<lambda>c. c \<noteq> CHR ''.'') r
      in if rest = [] then []
         else if tl rest = [] then []
         else if tl rest = ''.'' \<and> e = [] then []
         else CHR ''.'' # rev e)"

definition extname :: "string \<Rightarrow> string" where
  "extname path = component_ext (last_component path)"

text \<open>
  \<open>String.prototype.toLowerCase\<close> on the one-byte characters a request URL consists
  of: \<open>A\<close> to \<open>Z\<close> and the upper-case letters of Latin-1 move up by 32.
\<close>

definition lower_char :: "char \<Rightarrow> char" where
  "lower_char c =
     (let n = (of_char c :: nat)
      in if (65 \<le> n \<and> n \<le> 90) \<or> (192 \<le> n \<and> n \<le> 222 \<and> n \<noteq> 215)
         then char_of (n + 32) else c)"

definition toLowerCase :: "string \<Rightarrow> string" where
  "toLowerCase s = map lower_char s"

subsection \<open>What the file system answers\<close>

text \<open>
  The listener asks the file system two kinds of question: whether a path exists
  (\<open>fs.existsSync\<close>, \<open>fs.access\<close> with \<open>F_OK\<close>) and what reading it gives
  (\<open>fs.readFile\<close>, \<open>fs.createReadStream\<close>): the bytes, or an error with a code. The two
  answers are independent fields, so a file that disappears between the check and the
  read is one of the file systems covered.
\<close>

record filesystem =
  access_ok :: "string \<Rightarrow> bool"
  read_result :: "string \<Rightarrow> string + string"

text \<open>A file system at rest: every path names nothing, a file, a directory or a
  file the process may not read.\<close>

datatype entry = File string | Directory | Unreadable

definition read_entry :: "entry option \<Rightarrow> string + string" where
  "read_entry e =
     (case e of
        None \<Rightarrow> Inl ''ENOENT''
      | Some (File content) \<Rightarrow> Inr content
      | Some Directory \<Rightarrow> Inl ''EISDIR''
      | Some Unreadable \<Rightarrow> Inl ''EACCES'')"

definition snapshot :: "(string \<Rightarrow> entry option) \<Rightarrow> filesystem" where
  "snapshot look =
     \<lparr> access_ok = (\<lambda>p. look p \<noteq> None), read_result = (\<lambda>p. read_entry (look p)) \<rparr>"

subsection \<open>The server program\<close>

definition PORT :: nat where
  "PORT = 5000"

definition HOST :: string where
  "HOST = ''0.0.0.0''"

definition MIME_TYPES :: "string \<Rightarrow> string option" where
  "MIME_TYPES = map_of
     [(''.html'', ''text/html''),
      (''.js'', ''application/javascript''),
      (''.css'', ''text/css''),
      (''.json'', ''application/json''),
      (''.png'', ''image/png''),
      (''.jpg'', ''image/jpeg''),
      (''.jpeg'', ''image/jpeg''),
      (''.gif'', ''image/gif''),
      (''.svg'', ''image/svg+xml''),
      (''.ico'', ''image/x-icon''),
      (''.wav'', ''audio/wav''),
      (''.mp3'', ''audio/mpeg''),
      (''.webp'', ''image/webp''),
      (''.webmanifest'', ''application/manifest+json'')]"

text \<open>A request as the HTTP parser of Node.js hands it on: \<open>req.method\<close> and
  \<open>req.url\<close>.\<close>

record request =
  req_method :: string
  url :: string

text \<open>
  What a request ends in: a response (status, the headers the listener set, body), or
  the end of the process. A stream created by \<open>fs.createReadStream\<close> reports a failed
  read as an \<open>error\<close> event; the listener registers no handler for it, and Node.js
  turns an unhandled \<open>error\<close> event into an uncaught exception that ends the process.
\<close>

datatype outcome =
    Response nat "(string \<times> string) list" string
  | Crash string

definition faviconPath :: "string \<Rightarrow> string" where
  "faviconPath dirname = join [dirname, ''assets'', ''icons'', ''favicon.ico'']"

text \<open>\<open>res.setHeader('Content-Type', 'image/x-icon'); fs.createReadStream(p).pipe(res)\<close>\<close>

definition pipe_favicon :: "filesystem \<Rightarrow> string \<Rightarrow> outcome" where
  "pipe_favicon fs p =
     (case read_result fs p of
        Inr content \<Rightarrow> Response 200 [(''Content-Type'', ''image/x-icon'')] content
      | Inl code \<Rightarrow> Crash code)"

text \<open>\<open>MIME_TYPES[extname] || 'application/octet-stream'\<close>\<close>

definition contentType :: "string \<Rightarrow> string" where
  "contentType filePath =
     (case MIME_TYPES (toLowerCase (extname filePath)) of
        Some t \<Rightarrow> t
      | None \<Rightarrow> ''application/octet-stream'')"

text \<open>The callback of \<open>fs.readFile\<close>.\<close>

definition readFile_callback :: "string \<Rightarrow> string + string \<Rightarrow> outcome" where
  "readFile_callback ctype r =
     (case r of
        Inl code \<Rightarrow> Response 500 [] (''Server Error: '' @ code)
      | Inr content \<Rightarrow> Response 200 [(''Content-Type'', ctype)] content)"

text \<open>The callback of \<open>fs.access\<close>: the index file replaces a path that does not
  exist; then the content type is looked up and the file is read.\<close>

definition access_callback :: "string \<Rightarrow> filesystem \<Rightarrow> string \<Rightarrow> outcome" where
  "access_callback dirname fs candidate =
     (let filePath = (if access_ok fs candidate then candidate
                      else join [dirname, ''index.html''])
      in readFile_callback (contentType filePath) (read_result fs filePath))"

text \<open>The request listener: the line it logs, and the outcome.\<close>

definition requestListener :: "string \<Rightarrow> filesystem \<Rightarrow> request \<Rightarrow> string \<times> outcome" where
  "requestListener dirname fs req =
     (req_method req @ '' '' @ url req,
      if url req = ''/favicon.ico'' \<and> access_ok fs (faviconPath dirname)
      then pipe_favicon fs (faviconPath dirname)
      else access_callback dirname fs
             (join [dirname, if url req = ''/'' then ''index.html'' else url req]))"

definition response :: "string \<Rightarrow> filesystem \<Rightarrow> request \<Rightarrow> outcome" where
  "response dirname fs req = snd (requestListener dirname fs req)"

text \<open>
  The server over time: requests are handled one after the other, each against the
  file system of its moment, until one ends the process; the requests after that one
  get no answer.
\<close>

fun serve :: "string \<Rightarrow> (filesystem \<times> request) list \<Rightarrow> outcome list" where
  "serve dirname [] = []"
| "serve dirname ((fs, req) # rest) =
     (case response dirname fs req of
        Crash code \<Rightarrow> [Crash code]
      | Response st hs body \<Rightarrow> Response st hs body # serve dirname rest)"

subsection \<open>The HTTP server around the listener\<close>

text \<open>
  The listener is registered with \<open>http.createServer\<close> for the \<open>request\<close> event.
  The server program registers nothing for the \<open>connect\<close> event, so Node.js closes
  the connection of a \<open>CONNECT\<close> request without calling the listener; and the
  response object of a \<open>HEAD\<close> request sends the status and the headers and drops
  every body it is given. What the client gets is a reply, a closed connection, or
  nothing because the process ended.
\<close>

datatype reply =
    Reply nat "(string \<times> string) list" string
  | Closed
  | Ended string

text \<open>The lines logged for a request, and what the client gets.\<close>

definition http_server :: "string \<Rightarrow> filesystem \<Rightarrow> request \<Rightarrow> string list \<times> reply" where
  "http_server dirname fs req =
     (if req_method req = ''CONNECT'' then ([], Closed)
      else
        case requestListener dirname fs req of
          (line, Response st hs body) \<Rightarrow>
            ([line], Reply st hs (if req_method req = ''HEAD'' then [] else body))
        | (line, Crash code) \<Rightarrow> ([line], Ended code))"

definition sent :: "string \<Rightarrow> filesystem \<Rightarrow> request \<Rightarrow> reply" where
  "sent dirname fs req = snd (http_server dirname fs req)"

subsection \<open>The wrapper\<close>

text \<open>
  \<open>subprocess.run(..., check=True)\<close> returns, raises \<open>CalledProcessError\<close> when the
  command ends with a status other than 0, or raises \<open>FileNotFoundError\<close> when the
  command is not installed.
\<close>

datatype run_result = Completed | CalledProcessError | FileNotFoundError

text \<open>What \<open>server.listen\<close> meets: the address is bound, or it is not (port in use,
  permission denied) and the server emits an \<open>error\<close> event with a code.\<close>

datatype listen_result = Bound | ListenError string

text \<open>How a start ends: the process exits with a status, or the server listens on
  a host and a port.\<close>

datatype launch = Exit nat | Listening string nat

text \<open>
  The server program gets the environment and does not read it: it passes its own
  constants to \<open>server.listen\<close>. It registers no handler for the server's \<open>error\<close>
  event, so a failed bind ends the Node.js process with status 1.
\<close>

definition server_listen :: "(string \<Rightarrow> string option) \<Rightarrow> listen_result \<Rightarrow> launch" where
  "server_listen env bind =
     (case bind of
        Bound \<Rightarrow> Listening HOST PORT
      | ListenError code \<Rightarrow> Exit 1)"

text \<open>
  \<open>main\<close> of \<open>serve.py\<close>. Without \<open>node_modules\<close>, \<open>npm install\<close> is run: a
  \<open>CalledProcessError\<close> is caught and answered with \<open>sys.exit(1)\<close>, any other exception
  ends the wrapper with status 1 uncaught. Without \<open>dist\<close>, the build is run: a
  \<open>CalledProcessError\<close> is only reported, any other exception ends the wrapper. Then
  \<open>PORT\<close> and \<open>HOST\<close> are written into the environment and the server program is run
  with \<open>node\<close>: when \<open>node\<close> ends with a status other than 0 the wrapper catches the
  \<open>CalledProcessError\<close> and exits with status 1; when \<open>node\<close> is not installed the
  wrapper ends with status 1 uncaught. The model is of a start that no signal
  interrupts (\<open>signal_handler\<close> answers \<open>SIGINT\<close> and \<open>SIGTERM\<close> with \<open>sys.exit(0)\<close>).
\<close>

definition main ::
  "(string \<Rightarrow> string option) \<Rightarrow> bool \<Rightarrow> run_result \<Rightarrow> bool \<Rightarrow> run_result \<Rightarrow> bool
     \<Rightarrow> listen_result \<Rightarrow> launch" where
  "main env node_modules_exists install dist_exists build node_installed bind =
     (if \<not> node_modules_exists \<and> install \<noteq> Completed then Exit 1
      else if \<not> dist_exists \<and> build = FileNotFoundError then Exit 1
      else if \<not> node_installed then Exit 1
      else
        case server_listen (env(''PORT'' \<mapsto> ''5000'', ''HOST'' \<mapsto> ''0.0.0.0'')) bind of
          Listening host port \<Rightarrow> Listening host port
        | Exit status \<Rightarrow> Exit (if status = 0 then 0 else 1))"

text \<open>A file name that \<open>path.join\<close> keeps as it is when it comes last.\<close>

definition plain_name :: "string \<Rightarrow> bool" where
  "plain_name n = (n \<noteq> [] \<and> CHR ''/'' \<notin> set n \<and> n \<noteq> ''.'' \<and> n \<noteq> ''..'')"

subsection \<open>The path a request is answered from\<close>

text \<open>
  The path whose read decides the outcome: the favicon asset on the special case,
  otherwise the candidate path when it exists and the index file when it does not.
\<close>

definition resolved_path :: "string \<Rightarrow> filesystem \<Rightarrow> request \<Rightarrow> string" where
  "resolved_path dirname fs req =
     (if url req = ''/favicon.ico'' \<and> access_ok fs (faviconPath dirname)
      then faviconPath dirname
      else if access_ok fs (join [dirname, if url req = ''/'' then ''index.html'' else url req])
      then join [dirname, if url req = ''/'' then ''index.html'' else url req]
      else join [dirname, ''index.html''])"

subsection \<open>A sample deployment\<close>

definition sample_files :: "(string \<times> entry) list" where
  "sample_files =
     [(''/srv/app/index.html'', File ''<html>game</html>''),
      (''/srv/app/js/game.js'', File ''play()''),
      (''/srv/app/LOGO.PNG'', File ''png-bytes''),
      (''/srv/app/data.xyz'', File ''xyz''),
      (''/srv/app/secret.html'', Unreadable),
      (''/srv/app/assets'', Directory),
      (''/srv/app/favicon.ico'', File ''root-icon''),
      (''/etc/passwd'', File ''root:x:0:0'')]"

text \<open>The sample with the favicon asset in place, readable.\<close>

definition sample_fs :: filesystem where
  "sample_fs = snapshot (map_of
     ((''/srv/app/assets/icons/favicon.ico'', File ''asset-icon'') # sample_files))"

text \<open>The sample without the favicon asset.\<close>

definition sample_fs_no_asset :: filesystem where
  "sample_fs_no_asset = snapshot (map_of sample_files)"

text \<open>The sample with a favicon asset that exists and cannot be read.\<close>

definition sample_fs_locked_asset :: filesystem where
  "sample_fs_locked_asset = snapshot (map_of
     ((''/srv/app/assets/icons/favicon.ico'', Unreadable) # sample_files))"

text \<open>The sample with the favicon asset in place and a directory named
  \<open>favicon.ico\<close> at the root.\<close>

definition favicon_dir_files :: "(string \<times> entry) list" where
  "favicon_dir_files =
     (''/srv/app/favicon.ico'', Directory)
     # (''/srv/app/assets/icons/favicon.ico'', File ''asset-icon'') # sample_files"

definition GET :: "string \<Rightarrow> request" where
  "GET u = \<lparr> req_method = ''GET'', url = u \<rparr>"

definition HEAD :: "string \<Rightarrow> request" where
  "HEAD u = \<lparr> req_method = ''HEAD'', url = u \<rparr>"

definition CONNECT :: "string \<Rightarrow> request" where
  "CONNECT u = \<lparr> req_method = ''CONNECT'', url = u \<rparr>"

section \<open>Properties of the path functions\<close>

text \<open>
  Whatever the directory, joining it with a plain file name gives a path whose last
  component is that name; so the extension of \<open>index.html\<close> and of the favicon asset
  does not depend on \<open>__dirname\<close>.
\<close>

lemma split_step_not_Nil: "split_step c acc \<noteq> []"
  by (simp add: split_step_def)

lemma split_step_append: "acc \<noteq> [] \<Longrightarrow> split_step c (acc @ ys) = split_step c acc @ ys"
  by (cases acc) (simp_all add: split_step_def)

lemma foldr_split_step_not_Nil: "foldr split_step s (x # ys) \<noteq> []"
  by (cases s) (simp_all add: split_step_not_Nil)

lemma split_path_no_slash: "CHR ''/'' \<notin> set n \<Longrightarrow> split_path n = [n]"
proof (induction n)
  case Nil
  show ?case by (simp add: split_path_def)
next
  case (Cons c n)
  then have "foldr split_step n [[]] = [n]" and "c \<noteq> CHR ''/''"
    by (auto simp: split_path_def)
  then show ?case by (simp add: split_path_def split_step_def)
qed

lemma foldr_split_step_tail:
  "foldr split_step s (x # ys) = foldr split_step s [x] @ ys"
proof (induction s)
  case Nil
  show ?case by simp
next
  case (Cons c s)
  have "foldr split_step (c # s) (x # ys) = split_step c (foldr split_step s [x] @ ys)"
    using Cons by simp
  also have "\<dots> = split_step c (foldr split_step s [x]) @ ys"
    by (rule split_step_append) (rule foldr_split_step_not_Nil)
  finally show ?case by simp
qed

lemma split_path_append:
  assumes "CHR ''/'' \<notin> set n"
  shows "split_path (a @ CHR ''/'' # n) = split_path a @ [n]"
proof -
  have "split_path (a @ CHR ''/'' # n) = foldr split_step a ([] # foldr split_step n [[]])"
    by (simp add: split_path_def split_step_def)
  also have "foldr split_step n [[]] = [n]"
    using split_path_no_slash [OF assms] by (simp add: split_path_def)
  also have "foldr split_step a ([] # [n]) = foldr split_step a [[]] @ [n]"
    by (rule foldr_split_step_tail)
  finally show ?thesis by (simp add: split_path_def)
qed

lemma normalizeString_last:
  assumes "plain_name n"
  shows "normalizeString (a @ CHR ''/'' # n) allow = normalizeString a allow @ [n]"
    and "normalizeString n allow = [n]"
  using assms
  by (simp_all add: normalizeString_def split_path_append split_path_no_slash
        normalize_step_def plain_name_def)

lemma join_segs_snoc:
  "join_segs (rs @ [n]) = (if rs = [] then n else join_segs rs @ CHR ''/'' # n)"
  by (induction rs rule: join_segs.induct) simp_all

lemma plain_name_ends:
  assumes "plain_name n"
  shows "n \<noteq> []" and "last n \<noteq> CHR ''/''" and "hd n \<noteq> CHR ''/''"
proof -
  show n: "n \<noteq> []" using assms by (simp add: plain_name_def)
  have "CHR ''/'' \<notin> set n" using assms by (simp add: plain_name_def)
  then show "last n \<noteq> CHR ''/''" and "hd n \<noteq> CHR ''/''"
    using last_in_set [OF n] hd_in_set [OF n] by auto
qed

lemma normalize_last:
  assumes "plain_name n"
  shows "normalize (a @ CHR ''/'' # n) = n
         \<or> (\<exists>y. normalize (a @ CHR ''/'' # n) = y @ CHR ''/'' # n)"
    and "normalize n = n"
proof -
  note n = plain_name_ends [OF assms]
  show "normalize n = n"
    using n assms by (simp add: normalize_def normalizeString_last Let_def)
  let ?rs = "normalizeString a (hd (a @ CHR ''/'' # n) \<noteq> CHR ''/'')"
  have js: "join_segs (?rs @ [n]) \<noteq> []"
    using n by (simp add: join_segs_snoc)
  have "normalize (a @ CHR ''/'' # n)
        = (if hd (a @ CHR ''/'' # n) = CHR ''/'' then ''/'' else []) @ join_segs (?rs @ [n])"
    using n js assms by (simp add: normalize_def normalizeString_last Let_def)
  then show "normalize (a @ CHR ''/'' # n) = n
         \<or> (\<exists>y. normalize (a @ CHR ''/'' # n) = y @ CHR ''/'' # n)"
    by (auto simp: join_segs_snoc intro: exI [of _ "[]"])
qed

lemma join_last:
  assumes "plain_name n"
  shows "join (args @ [n]) = n \<or> (\<exists>y. join (args @ [n]) = y @ CHR ''/'' # n)"
proof -
  let ?parts = "filter (\<lambda>arg. arg \<noteq> []) args"
  have n: "n \<noteq> []" using assms by (simp add: plain_name_def)
  have "join (args @ [n]) = normalize (join_segs (?parts @ [n]))"
    using n by (simp add: join_def)
  then show ?thesis
    using normalize_last [OF assms] by (simp add: join_segs_snoc)
qed

lemma last_component_ends:
  assumes "plain_name n" and "p = n \<or> (\<exists>y. p = y @ CHR ''/'' # n)"
  shows "last_component p = n"
proof -
  note n = plain_name_ends [OF assms(1)]
  have ns: "CHR ''/'' \<notin> set n" using assms(1) by (simp add: plain_name_def)
  have d: "dropWhile (\<lambda>c. c = CHR ''/'') (rev n @ zs) = rev n @ zs" for zs
    using n by (cases "rev n") (auto simp: hd_rev) 
  have t: "rev (takeWhile (\<lambda>c. c \<noteq> CHR ''/'') (rev n)) = n"
  proof -
    have "takeWhile (\<lambda>c. c \<noteq> CHR ''/'') (rev n) = rev n"
      using ns by auto
    then show ?thesis by (simp only: rev_rev_ident)
  qed
  have t2: "rev (takeWhile (\<lambda>c. c \<noteq> CHR ''/'') (rev n @ CHR ''/'' # zs)) = n" for zs
    using t by (simp add: takeWhile_tail)
  from assms(2) show ?thesis
  proof
    assume "p = n"
    then show ?thesis using d [of "[]"] t by (simp add: last_component_def)
  next
    assume "\<exists>y. p = y @ CHR ''/'' # n"
    then obtain y where "p = y @ CHR ''/'' # n" ..
    then show ?thesis using d [of "CHR ''/'' # rev y"] t2 [of "rev y"]
      by (simp add: last_component_def)
  qed
qed

lemma extname_join_last:
  "plain_name n \<Longrightarrow> extname (join (args @ [n])) = component_ext n"
  by (simp add: extname_def last_component_ends join_last)

lemma toLowerCase_html: "toLowerCase ''.html'' = ''.html''"
  by code_simp

lemma toLowerCase_ico: "toLowerCase ''.ico'' = ''.ico''"
  by code_simp

lemma contentType_index: "contentType (join [dirname, ''index.html'']) = ''text/html''"
proof -
  have "extname (join [dirname, ''index.html'']) = ''.html''"
    using extname_join_last [of "''index.html''" "[dirname]"]
    by (simp add: plain_name_def component_ext_def)
  then show ?thesis
    by (simp add: contentType_def toLowerCase_html MIME_TYPES_def)
qed

lemma contentType_favicon: "contentType (faviconPath dirname) = ''image/x-icon''"
proof -
  have "extname (join [dirname, ''assets'', ''icons'', ''favicon.ico'']) = ''.ico''"
    using extname_join_last [of "''favicon.ico''" "[dirname, ''assets'', ''icons'']"]
    by (simp add: plain_name_def component_ext_def)
  then show ?thesis
    by (simp add: contentType_def faviconPath_def toLowerCase_ico MIME_TYPES_def)
qed

section \<open>The request listener\<close>

text \<open>Unfolding rules for evaluating the model on concrete inputs.\<close>

lemmas path_eval = join_def normalize_def normalizeString_def split_path_def split_step_def
  normalize_step_def extname_def last_component_def component_ext_def

lemmas fs_eval = sample_fs_def sample_fs_no_asset_def sample_fs_locked_asset_def
  favicon_dir_files_def sample_files_def snapshot_def read_entry_def GET_def

lemmas listener_eval = response_def requestListener_def faviconPath_def pipe_favicon_def
  access_callback_def readFile_callback_def

lemma MIME_TYPES_keys:
  "MIME_TYPES e = Some t \<Longrightarrow>
     e \<in> {''.html'', ''.js'', ''.css'', ''.json'', ''.png'', ''.jpg'', ''.jpeg'', ''.gif'',
          ''.svg'', ''.ico'', ''.wav'', ''.mp3'', ''.webp'', ''.webmanifest''}"
  by (simp add: MIME_TYPES_def split: if_splits)

lemma toLowerCase_keys:
  "toLowerCase ''.html'' = ''.html''" "toLowerCase ''.js'' = ''.js''"
  "toLowerCase ''.css'' = ''.css''" "toLowerCase ''.json'' = ''.json''"
  "toLowerCase ''.png'' = ''.png''" "toLowerCase ''.jpg'' = ''.jpg''"
  "toLowerCase ''.jpeg'' = ''.jpeg''" "toLowerCase ''.gif'' = ''.gif''"
  "toLowerCase ''.svg'' = ''.svg''" "toLowerCase ''.ico'' = ''.ico''"
  "toLowerCase ''.wav'' = ''.wav''" "toLowerCase ''.mp3'' = ''.mp3''"
  "toLowerCase ''.webp'' = ''.webp''" "toLowerCase ''.webmanifest'' = ''.webmanifest''"
  by code_simp+

lemma MIME_TYPES_lower: "MIME_TYPES e = Some t \<Longrightarrow> toLowerCase e = e"
  using MIME_TYPES_keys [of e t] by (auto simp: toLowerCase_keys)

lemma contentType_key: "MIME_TYPES (extname p) = Some t \<Longrightarrow> contentType p = t"
  by (simp add: contentType_def MIME_TYPES_lower)

lemma response_general:
  assumes "\<not> (url req = ''/favicon.ico'' \<and> access_ok fs (faviconPath dirname))"
  shows "response dirname fs req =
           readFile_callback (contentType (resolved_path dirname fs req))
             (read_result fs (resolved_path dirname fs req))"
  using assms
  by (auto simp add: response_def requestListener_def access_callback_def resolved_path_def Let_def)

lemma response_favicon:
  assumes "url req = ''/favicon.ico''" and "access_ok fs (faviconPath dirname)"
  shows "response dirname fs req = pipe_favicon fs (faviconPath dirname)"
    and "resolved_path dirname fs req = faviconPath dirname"
  using assms by (simp_all add: response_def requestListener_def resolved_path_def)

text \<open>
  In the statements below, a file that exists with contents \<open>c\<close> at path \<open>p\<close> is a
  path for which the existence check succeeds and the read gives \<open>c\<close>; failed reads
  are treated apart.
\<close>

text \<open>
  C1, amended. For every file that exists under the server root, whose read succeeds
  and whose extension is a key of the MIME table, a request for that file's path (a
  path other than \<open>/\<close>, which names the root itself) returns status 200, the
  Content-Type of the table entry for that extension and a body identical to the
  file's contents, unless the request is for \<open>/favicon.ico\<close> while the dedicated
  favicon asset exists.
\<close>

theorem served_file:
  assumes "url req \<noteq> ''/''"
    and "\<not> (url req = ''/favicon.ico'' \<and> access_ok fs (faviconPath dirname))"
    and "access_ok fs (join [dirname, url req])"
    and "read_result fs (join [dirname, url req]) = Inr content"
    and "MIME_TYPES (extname (join [dirname, url req])) = Some t"
  shows "response dirname fs req = Response 200 [(''Content-Type'', t)] content"
proof -
  have "resolved_path dirname fs req = join [dirname, url req]"
    using assms(1-3) by (auto simp add: resolved_path_def)
  then show ?thesis
    using assms(2,4,5) by (simp add: response_general contentType_key readFile_callback_def)
qed

text \<open>The sample deployment serves \<open>/js/game.js\<close> as JavaScript.\<close>

theorem served_file_witness:
  "url (GET ''/js/game.js'') \<noteq> ''/''
   \<and> \<not> (url (GET ''/js/game.js'') = ''/favicon.ico'' \<and> access_ok sample_fs (faviconPath ''/srv/app''))
   \<and> access_ok sample_fs (join [''/srv/app'', url (GET ''/js/game.js'')])
   \<and> read_result sample_fs (join [''/srv/app'', url (GET ''/js/game.js'')]) = Inr ''play()''
   \<and> MIME_TYPES (extname (join [''/srv/app'', url (GET ''/js/game.js'')])) = Some ''application/javascript''
   \<and> response ''/srv/app'' sample_fs (GET ''/js/game.js'')
       = Response 200 [(''Content-Type'', ''application/javascript'')] ''play()''"
proof -
  have j: "join [''/srv/app'', ''/js/game.js''] = ''/srv/app/js/game.js''"
    by (simp add: path_eval)
  have e: "extname ''/srv/app/js/game.js'' = ''.js''"
    by (simp add: path_eval)
  have h: "url (GET ''/js/game.js'') \<noteq> ''/''"
    "\<not> (url (GET ''/js/game.js'') = ''/favicon.ico'' \<and> access_ok sample_fs (faviconPath ''/srv/app''))"
    "access_ok sample_fs (join [''/srv/app'', url (GET ''/js/game.js'')])"
    "read_result sample_fs (join [''/srv/app'', url (GET ''/js/game.js'')]) = Inr ''play()''"
    "MIME_TYPES (extname (join [''/srv/app'', url (GET ''/js/game.js'')])) = Some ''application/javascript''"
    by (simp_all add: GET_def j e fs_eval MIME_TYPES_def)
  from served_file [OF h] h show ?thesis by simp
qed

text \<open>
  C1 as stated fails for a file \<open>favicon.ico\<close> at the root while the favicon asset
  exists: the file exists, is readable and has a listed extension, and the request for
  its path returns the bytes of the asset instead.
\<close>

theorem shadowed_favicon_counterexample:
  "access_ok sample_fs (join [''/srv/app'', ''/favicon.ico''])
   \<and> read_result sample_fs (join [''/srv/app'', ''/favicon.ico'']) = Inr ''root-icon''
   \<and> MIME_TYPES (extname (join [''/srv/app'', ''/favicon.ico''])) = Some ''image/x-icon''
   \<and> response ''/srv/app'' sample_fs (GET ''/favicon.ico'')
       = Response 200 [(''Content-Type'', ''image/x-icon'')] ''asset-icon''
   \<and> ''asset-icon'' \<noteq> ''root-icon''"
  by (simp add: listener_eval path_eval fs_eval MIME_TYPES_def)


text \<open>
  C2. When the path a request asks for does not exist, the response is status 200
  with the contents of the root index file (served as \<open>text/html\<close>), except for
  \<open>/favicon.ico\<close> while the dedicated favicon asset exists. The root index file is
  part of the expected layout: its read gives \<open>content\<close>.
\<close>

theorem fallback_to_index:
  assumes "\<not> access_ok fs (join [dirname, if url req = ''/'' then ''index.html'' else url req])"
    and "\<not> (url req = ''/favicon.ico'' \<and> access_ok fs (faviconPath dirname))"
    and "read_result fs (join [dirname, ''index.html'']) = Inr content"
  shows "response dirname fs req = Response 200 [(''Content-Type'', ''text/html'')] content"
proof -
  have "resolved_path dirname fs req = join [dirname, ''index.html'']"
    using assms(1,2) by (auto simp add: resolved_path_def)
  then show ?thesis
    using assms(2,3) by (simp add: response_general contentType_index readFile_callback_def)
qed

text \<open>The sample deployment answers the unknown path \<open>/play/room/42\<close> with the
  index file.\<close>

theorem fallback_to_index_witness:
  "\<not> access_ok sample_fs_no_asset
        (join [''/srv/app'', if url (GET ''/play/room/42'') = ''/'' then ''index.html''
                             else url (GET ''/play/room/42'')])
   \<and> \<not> (url (GET ''/play/room/42'') = ''/favicon.ico''
          \<and> access_ok sample_fs_no_asset (faviconPath ''/srv/app''))
   \<and> read_result sample_fs_no_asset (join [''/srv/app'', ''index.html''])
       = Inr ''<html>game</html>''
   \<and> response ''/srv/app'' sample_fs_no_asset (GET ''/play/room/42'')
       = Response 200 [(''Content-Type'', ''text/html'')] ''<html>game</html>''"
proof -
  have j: "join [''/srv/app'', ''/play/room/42''] = ''/srv/app/play/room/42''"
    "join [''/srv/app'', ''index.html''] = ''/srv/app/index.html''"
    by (simp_all add: path_eval)
  have h: "\<not> access_ok sample_fs_no_asset
        (join [''/srv/app'', if url (GET ''/play/room/42'') = ''/'' then ''index.html''
                             else url (GET ''/play/room/42'')])"
    "\<not> (url (GET ''/play/room/42'') = ''/favicon.ico''
          \<and> access_ok sample_fs_no_asset (faviconPath ''/srv/app''))"
    "read_result sample_fs_no_asset (join [''/srv/app'', ''index.html''])
       = Inr ''<html>game</html>''"
    by (simp_all add: GET_def j fs_eval)
  from fallback_to_index [OF h] h show ?thesis by simp
qed

text \<open>
  C9. A request for exactly \<open>/\<close> is answered from the root index file, whatever the
  file system says about the raw path: the index file's contents, as \<open>text/html\<close>.
\<close>

theorem root_serves_index:
  assumes "url req = ''/''"
    and "read_result fs (join [dirname, ''index.html'']) = Inr content"
  shows "resolved_path dirname fs req = join [dirname, ''index.html'']
         \<and> response dirname fs req = Response 200 [(''Content-Type'', ''text/html'')] content"
proof -
  have r: "resolved_path dirname fs req = join [dirname, ''index.html'']"
    using assms(1) by (simp add: resolved_path_def)
  have "\<not> (url req = ''/favicon.ico'' \<and> access_ok fs (faviconPath dirname))"
    using assms(1) by simp
  then show ?thesis
    using r assms(2) by (simp add: response_general contentType_index readFile_callback_def)
qed

text \<open>The sample deployment answers \<open>/\<close> with its index file.\<close>

theorem root_serves_index_witness:
  "url (GET ''/'') = ''/''
   \<and> read_result sample_fs (join [''/srv/app'', ''index.html'']) = Inr ''<html>game</html>''
   \<and> resolved_path ''/srv/app'' sample_fs (GET ''/'') = ''/srv/app/index.html''
   \<and> response ''/srv/app'' sample_fs (GET ''/'')
       = Response 200 [(''Content-Type'', ''text/html'')] ''<html>game</html>''"
proof -
  have j: "join [''/srv/app'', ''index.html''] = ''/srv/app/index.html''"
    by (simp add: path_eval)
  have h: "url (GET ''/'') = ''/''"
    "read_result sample_fs (join [''/srv/app'', ''index.html'']) = Inr ''<html>game</html>''"
    by (simp_all add: GET_def j fs_eval)
  from root_serves_index [OF h] h j show ?thesis by simp
qed

text \<open>
  C5. For a request for \<open>/favicon.ico\<close>: when the asset at
  \<open>assets/icons/favicon.ico\<close> under the root exists, the response carries that file's
  bytes with Content-Type \<open>image/x-icon\<close>, whatever else the file system holds; when
  the asset is absent, the request gets the general handling of its path.
\<close>

theorem favicon_special_case:
  assumes "url req = ''/favicon.ico''"
  shows "(access_ok fs (faviconPath dirname) \<and> read_result fs (faviconPath dirname) = Inr bytes
            \<longrightarrow> response dirname fs req
                 = Response 200 [(''Content-Type'', ''image/x-icon'')] bytes)
         \<and> (\<not> access_ok fs (faviconPath dirname)
            \<longrightarrow> response dirname fs req
                 = access_callback dirname fs (join [dirname, ''/favicon.ico'']))"
  using assms by (simp add: response_def requestListener_def pipe_favicon_def)

text \<open>The sample deployment has a \<open>favicon.ico\<close> at the root too: with the asset
  the asset is served, without it the root file.\<close>

theorem favicon_special_case_witness:
  "url (GET ''/favicon.ico'') = ''/favicon.ico''
   \<and> faviconPath ''/srv/app'' = ''/srv/app/assets/icons/favicon.ico''
   \<and> access_ok sample_fs (faviconPath ''/srv/app'')
   \<and> read_result sample_fs (faviconPath ''/srv/app'') = Inr ''asset-icon''
   \<and> read_result sample_fs (join [''/srv/app'', ''/favicon.ico'']) = Inr ''root-icon''
   \<and> response ''/srv/app'' sample_fs (GET ''/favicon.ico'')
       = Response 200 [(''Content-Type'', ''image/x-icon'')] ''asset-icon''
   \<and> \<not> access_ok sample_fs_no_asset (faviconPath ''/srv/app'')
   \<and> response ''/srv/app'' sample_fs_no_asset (GET ''/favicon.ico'')
       = Response 200 [(''Content-Type'', ''image/x-icon'')] ''root-icon''"
proof -
  have j: "faviconPath ''/srv/app'' = ''/srv/app/assets/icons/favicon.ico''"
    "join [''/srv/app'', ''/favicon.ico''] = ''/srv/app/favicon.ico''"
    "join [''/srv/app'', ''index.html''] = ''/srv/app/index.html''"
    by (simp_all add: faviconPath_def path_eval)
  have u: "url (GET ''/favicon.ico'') = ''/favicon.ico''"
    by (simp add: GET_def)
  have a: "access_ok sample_fs (faviconPath ''/srv/app'')"
    "read_result sample_fs (faviconPath ''/srv/app'') = Inr ''asset-icon''"
    "read_result sample_fs (join [''/srv/app'', ''/favicon.ico'']) = Inr ''root-icon''"
    by (simp_all add: j fs_eval)
  have b: "\<not> access_ok sample_fs_no_asset (faviconPath ''/srv/app'')"
    "access_ok sample_fs_no_asset ''/srv/app/favicon.ico''"
    "read_result sample_fs_no_asset ''/srv/app/favicon.ico'' = Inr ''root-icon''"
    by (simp_all add: j fs_eval)
  have c: "contentType ''/srv/app/favicon.ico'' = ''image/x-icon''"
    using contentType_key [of "''/srv/app/favicon.ico''" "''image/x-icon''"]
    by (simp add: path_eval MIME_TYPES_def)
  from favicon_special_case [OF u, of sample_fs "''/srv/app''" "''asset-icon''"]
       favicon_special_case [OF u, of sample_fs_no_asset "''/srv/app''"]
  show ?thesis
    using u a b c j by (simp add: access_callback_def readFile_callback_def)
qed

text \<open>What the server sends, in terms of the listener's outcome.\<close>

lemma sent_response:
  "sent dirname fs r =
     (if req_method r = ''CONNECT'' then Closed
      else case response dirname fs r of
        Response st hs body \<Rightarrow> Reply st hs (if req_method r = ''HEAD'' then [] else body)
      | Crash code \<Rightarrow> Ended code)"
  by (cases "requestListener dirname fs r"; cases "snd (requestListener dirname fs r)")
     (simp_all add: sent_def http_server_def response_def)

text \<open>
  C8, amended. The listener never branches on the method, which it only logs: for
  two requests that differ in their method only and the same file system, the
  listener hands the same status, headers and body to the response object, and the
  server sends the same status, headers and body when neither method is \<open>HEAD\<close> or
  \<open>CONNECT\<close>. For \<open>HEAD\<close> the server sends the same status and headers with no
  body; a \<open>CONNECT\<close> request does not reach the listener and gets no response.
\<close>

theorem method_only_logged:
  "response dirname fs (req\<lparr>req_method := m\<rparr>) = response dirname fs req
   \<and> (m \<noteq> ''HEAD'' \<and> m \<noteq> ''CONNECT''
        \<and> req_method req \<noteq> ''HEAD'' \<and> req_method req \<noteq> ''CONNECT''
      \<longrightarrow> sent dirname fs (req\<lparr>req_method := m\<rparr>) = sent dirname fs req)
   \<and> (response dirname fs req = Response st hs body
      \<longrightarrow> sent dirname fs (req\<lparr>req_method := ''HEAD''\<rparr>) = Reply st hs [])
   \<and> sent dirname fs (req\<lparr>req_method := ''CONNECT''\<rparr>) = Closed"
proof -
  have l: "snd (requestListener dirname fs (req\<lparr>req_method := m'\<rparr>))
           = snd (requestListener dirname fs req)" for m'
    by (simp add: requestListener_def)
  have r: "response dirname fs (req\<lparr>req_method := m'\<rparr>) = response dirname fs req" for m'
    using l [of m'] by (simp add: response_def)
  show ?thesis
    by (auto simp add: r sent_response split: outcome.splits)
qed

text \<open>In the sample deployment \<open>POST\<close> and \<open>GET\<close> of \<open>/js/game.js\<close> are answered
  alike.\<close>

theorem method_only_logged_witness:
  "''POST'' \<noteq> ''HEAD'' \<and> ''POST'' \<noteq> ''CONNECT''
   \<and> req_method (GET ''/js/game.js'') \<noteq> ''HEAD''
   \<and> req_method (GET ''/js/game.js'') \<noteq> ''CONNECT''
   \<and> response ''/srv/app'' sample_fs (GET ''/js/game.js'')
       = Response 200 [(''Content-Type'', ''application/javascript'')] ''play()''
   \<and> sent ''/srv/app'' sample_fs ((GET ''/js/game.js'')\<lparr>req_method := ''POST''\<rparr>)
       = Reply 200 [(''Content-Type'', ''application/javascript'')] ''play()''
   \<and> sent ''/srv/app'' sample_fs (GET ''/js/game.js'')
       = Reply 200 [(''Content-Type'', ''application/javascript'')] ''play()''
   \<and> sent ''/srv/app'' sample_fs ((GET ''/js/game.js'')\<lparr>req_method := ''HEAD''\<rparr>)
       = Reply 200 [(''Content-Type'', ''application/javascript'')] []"
proof -
  have j: "join [''/srv/app'', ''/js/game.js''] = ''/srv/app/js/game.js''"
    by (simp add: path_eval)
  have c: "contentType ''/srv/app/js/game.js'' = ''application/javascript''"
    using contentType_key [of "''/srv/app/js/game.js''" "''application/javascript''"]
    by (simp add: path_eval MIME_TYPES_def)
  have g: "response ''/srv/app'' sample_fs (GET ''/js/game.js'')
       = Response 200 [(''Content-Type'', ''application/javascript'')] ''play()''"
    by (simp add: response_def requestListener_def access_callback_def readFile_callback_def
          j c fs_eval)
  have s: "sent ''/srv/app'' sample_fs (GET ''/js/game.js'')
       = Reply 200 [(''Content-Type'', ''application/javascript'')] ''play()''"
    using g by (simp add: sent_response GET_def)
  have m: "req_method (GET ''/js/game.js'') \<noteq> ''HEAD''"
    "req_method (GET ''/js/game.js'') \<noteq> ''CONNECT''"
    by (simp_all add: GET_def)
  from method_only_logged [where dirname = "''/srv/app''" and fs = sample_fs
         and req = "GET ''/js/game.js''" and m = "''POST''" and st = 200
         and hs = "[(''Content-Type'', ''application/javascript'')]" and body = "''play()''"]
  show ?thesis
    using g s m by simp
qed

text \<open>
  C8 as stated fails: in the sample deployment \<open>GET /\<close> is answered with the index
  file as body, \<open>HEAD /\<close> with no body, and \<open>CONNECT /\<close> with a closed connection.
\<close>

theorem head_connect_counterexample:
  "sent ''/srv/app'' sample_fs (GET ''/'')
     = Reply 200 [(''Content-Type'', ''text/html'')] ''<html>game</html>''
   \<and> sent ''/srv/app'' sample_fs (HEAD ''/'') = Reply 200 [(''Content-Type'', ''text/html'')] []
   \<and> sent ''/srv/app'' sample_fs (CONNECT ''/'') = Closed
   \<and> HEAD ''/'' = (GET ''/'')\<lparr>req_method := ''HEAD''\<rparr>
   \<and> CONNECT ''/'' = (GET ''/'')\<lparr>req_method := ''CONNECT''\<rparr>"
proof -
  have j: "join [''/srv/app'', ''index.html''] = ''/srv/app/index.html''"
    by (simp add: path_eval)
  have c: "contentType ''/srv/app/index.html'' = ''text/html''"
    using contentType_index [of "''/srv/app''"] by (simp add: j)
  have g: "response ''/srv/app'' sample_fs \<lparr>req_method = m, url = ''/''\<rparr>
       = Response 200 [(''Content-Type'', ''text/html'')] ''<html>game</html>''" for m
    by (simp add: response_def requestListener_def access_callback_def readFile_callback_def
          j c fs_eval)
  show ?thesis
    by (simp add: sent_response g GET_def HEAD_def CONNECT_def)
qed

section \<open>Content types and candidate paths\<close>

lemma MIME_TYPES_table:
  "(MIME_TYPES e = Some t) =
     ((e, t) \<in> set [(''.html'', ''text/html''), (''.js'', ''application/javascript''),
        (''.css'', ''text/css''), (''.json'', ''application/json''), (''.png'', ''image/png''),
        (''.jpg'', ''image/jpeg''), (''.jpeg'', ''image/jpeg''), (''.gif'', ''image/gif''),
        (''.svg'', ''image/svg+xml''), (''.ico'', ''image/x-icon''), (''.wav'', ''audio/wav''),
        (''.mp3'', ''audio/mpeg''), (''.webp'', ''image/webp''),
        (''.webmanifest'', ''application/manifest+json'')])"
  unfolding MIME_TYPES_def by (subst map_of_eq_Some_iff) simp_all

text \<open>Every outcome comes from reading the resolved path; on the favicon special
  case the content type written in the listener is the one the table gives for the
  asset.\<close>

lemma response_cases:
  "response dirname fs req = pipe_favicon fs (resolved_path dirname fs req)
   \<and> contentType (resolved_path dirname fs req) = ''image/x-icon''
   \<or> response dirname fs req =
       readFile_callback (contentType (resolved_path dirname fs req))
         (read_result fs (resolved_path dirname fs req))"
proof (cases "url req = ''/favicon.ico'' \<and> access_ok fs (faviconPath dirname)")
  case True
  then show ?thesis by (simp add: response_favicon contentType_favicon)
next
  case False
  then show ?thesis by (simp add: response_general)
qed

text \<open>
  C6. Every response that carries a Content-Type (every response of status 200; a
  response of status 500 carries no header) has the one determined from the extension
  of the final resolved path, lowercased, by the MIME table, and
  \<open>application/octet-stream\<close> when the table has no entry. The table holds exactly
  the fourteen listed entries.
\<close>

theorem content_type_rule:
  "(response dirname fs req = Response st hs body \<longrightarrow>
      st = 200 \<and> hs = [(''Content-Type'',
          case MIME_TYPES (toLowerCase (extname (resolved_path dirname fs req))) of
            Some t \<Rightarrow> t | None \<Rightarrow> ''application/octet-stream'')]
      \<or> st = 500 \<and> hs = [])
   \<and> (MIME_TYPES e = Some t) =
     ((e, t) \<in> set [(''.html'', ''text/html''), (''.js'', ''application/javascript''),
        (''.css'', ''text/css''), (''.json'', ''application/json''), (''.png'', ''image/png''),
        (''.jpg'', ''image/jpeg''), (''.jpeg'', ''image/jpeg''), (''.gif'', ''image/gif''),
        (''.svg'', ''image/svg+xml''), (''.ico'', ''image/x-icon''), (''.wav'', ''audio/wav''),
        (''.mp3'', ''audio/mpeg''), (''.webp'', ''image/webp''),
        (''.webmanifest'', ''application/manifest+json'')])"
proof (rule conjI)
  show "response dirname fs req = Response st hs body \<longrightarrow>
      st = 200 \<and> hs = [(''Content-Type'',
          case MIME_TYPES (toLowerCase (extname (resolved_path dirname fs req))) of
            Some t \<Rightarrow> t | None \<Rightarrow> ''application/octet-stream'')]
      \<or> st = 500 \<and> hs = []"
    using response_cases [of dirname fs req]
    by (auto simp add: pipe_favicon_def readFile_callback_def contentType_def
          split: sum.splits)
qed (rule MIME_TYPES_table)

text \<open>The sample deployment serves \<open>/LOGO.PNG\<close> as \<open>image/png\<close> and \<open>/data.xyz\<close>
  as \<open>application/octet-stream\<close>.\<close>

theorem content_type_rule_witness:
  "response ''/srv/app'' sample_fs (GET ''/LOGO.PNG'')
     = Response 200 [(''Content-Type'', ''image/png'')] ''png-bytes''
   \<and> extname (resolved_path ''/srv/app'' sample_fs (GET ''/LOGO.PNG'')) = ''.PNG''
   \<and> response ''/srv/app'' sample_fs (GET ''/data.xyz'')
     = Response 200 [(''Content-Type'', ''application/octet-stream'')] ''xyz''
   \<and> MIME_TYPES ''.xyz'' = None"
proof -
  have j: "join [''/srv/app'', ''/LOGO.PNG''] = ''/srv/app/LOGO.PNG''"
    "join [''/srv/app'', ''/data.xyz''] = ''/srv/app/data.xyz''"
    by (simp_all add: path_eval)
  have r: "resolved_path ''/srv/app'' sample_fs (GET ''/LOGO.PNG'') = ''/srv/app/LOGO.PNG''"
    "resolved_path ''/srv/app'' sample_fs (GET ''/data.xyz'') = ''/srv/app/data.xyz''"
    by (simp_all add: resolved_path_def j fs_eval)
  have e: "extname ''/srv/app/LOGO.PNG'' = ''.PNG''" "extname ''/srv/app/data.xyz'' = ''.xyz''"
    by (simp_all add: path_eval)
  have l: "toLowerCase ''.PNG'' = ''.png''" "toLowerCase ''.xyz'' = ''.xyz''"
    by code_simp+
  have m: "MIME_TYPES ''.png'' = Some ''image/png''" "MIME_TYPES ''.xyz'' = None"
    by (simp_all add: MIME_TYPES_def)
  obtain st1 hs1 b1 where o1:
    "response ''/srv/app'' sample_fs (GET ''/LOGO.PNG'') = Response st1 hs1 b1"
    "st1 = 200" "b1 = ''png-bytes''"
    by (simp add: listener_eval j fs_eval)
  obtain st2 hs2 b2 where o2:
    "response ''/srv/app'' sample_fs (GET ''/data.xyz'') = Response st2 hs2 b2"
    "st2 = 200" "b2 = ''xyz''"
    by (simp add: listener_eval j fs_eval)
  from content_type_rule [of "''/srv/app''" sample_fs "GET ''/LOGO.PNG''" st1 hs1 b1]
       content_type_rule [of "''/srv/app''" sample_fs "GET ''/data.xyz''" st2 hs2 b2]
  show ?thesis
    using o1 o2 by (simp add: r e l m)
qed

text \<open>
  C4. For a request path other than \<open>/\<close> and \<open>/favicon.ico\<close>, the path given to the
  existence check is \<open>path.join\<close> of the root and the request URL as received. A last
  segment of the URL arrives in the path character for character, \<open>%\<close> and \<open>?\<close>
  included, and \<open>..\<close> segments are resolved by \<open>path.join\<close> and not rejected: the
  request \<open>/../../etc/passwd\<close> leaves the root \<open>/srv/app\<close> and is answered with status
  200 from the file outside it.
\<close>

theorem candidate_path_literal:
  "(url req \<noteq> ''/'' \<and> url req \<noteq> ''/favicon.ico'' \<longrightarrow>
      response dirname fs req = access_callback dirname fs (join [dirname, url req]))
   \<and> (plain_name n \<longrightarrow> last_component (join [dirname, CHR ''/'' # n]) = n)
   \<and> join [''/srv/app'', ''/a%20b.html?v=1''] = ''/srv/app/a%20b.html?v=1''
   \<and> join [''/srv/app'', ''/../../etc/passwd''] = ''/etc/passwd''
   \<and> \<not> prefix ''/srv/app'' (join [''/srv/app'', ''/../../etc/passwd''])
   \<and> response ''/srv/app'' sample_fs (GET ''/../../etc/passwd'')
       = Response 200 [(''Content-Type'', ''application/octet-stream'')] ''root:x:0:0''"
proof (intro conjI impI)
  assume "url req \<noteq> ''/'' \<and> url req \<noteq> ''/favicon.ico''"
  then show "response dirname fs req = access_callback dirname fs (join [dirname, url req])"
    by (simp add: response_def requestListener_def)
next
  assume n: "plain_name n"
  have ne: "CHR ''/'' # n \<noteq> []" by simp
  have "join [dirname, CHR ''/'' # n] = normalize ((if dirname = [] then [] else dirname @ ''/'') @ CHR ''/'' # n)"
    by (simp add: join_def)
  then have "join [dirname, CHR ''/'' # n] = n
      \<or> (\<exists>y. join [dirname, CHR ''/'' # n] = y @ CHR ''/'' # n)"
    using normalize_last(1) [OF n, of "if dirname = [] then [] else dirname @ ''/''"]
    by simp
  then show "last_component (join [dirname, CHR ''/'' # n]) = n"
    by (rule last_component_ends [OF n])
next
  show "join [''/srv/app'', ''/a%20b.html?v=1''] = ''/srv/app/a%20b.html?v=1''"
    by (simp add: path_eval)
  show j: "join [''/srv/app'', ''/../../etc/passwd''] = ''/etc/passwd''"
    by (simp add: path_eval)
  show "\<not> prefix ''/srv/app'' (join [''/srv/app'', ''/../../etc/passwd''])"
    by (simp add: j)
  have "contentType ''/etc/passwd'' = ''application/octet-stream''"
    by (simp add: contentType_def path_eval toLowerCase_def MIME_TYPES_def)
  then show "response ''/srv/app'' sample_fs (GET ''/../../etc/passwd'')
       = Response 200 [(''Content-Type'', ''application/octet-stream'')] ''root:x:0:0''"
    by (simp add: response_def requestListener_def access_callback_def readFile_callback_def
          j fs_eval)
qed

text \<open>In the sample deployment the query string of \<open>/js/game.js?v=2\<close> stays in the
  path, which then names no file, so the index file is served.\<close>

theorem candidate_path_literal_witness:
  "url (GET ''/js/game.js?v=2'') \<noteq> ''/'' \<and> url (GET ''/js/game.js?v=2'') \<noteq> ''/favicon.ico''
   \<and> join [''/srv/app'', url (GET ''/js/game.js?v=2'')] = ''/srv/app/js/game.js?v=2''
   \<and> response ''/srv/app'' sample_fs (GET ''/js/game.js?v=2'')
       = Response 200 [(''Content-Type'', ''text/html'')] ''<html>game</html>''
   \<and> plain_name ''a%20b.html''
   \<and> last_component (join [''/srv/app'', ''/a%20b.html'']) = ''a%20b.html''"
proof -
  have j: "join [''/srv/app'', ''/js/game.js?v=2''] = ''/srv/app/js/game.js?v=2''"
    "join [''/srv/app'', ''index.html''] = ''/srv/app/index.html''"
    by (simp_all add: path_eval)
  have u: "url (GET ''/js/game.js?v=2'') \<noteq> ''/'' \<and> url (GET ''/js/game.js?v=2'') \<noteq> ''/favicon.ico''"
    by (simp add: GET_def)
  have p: "plain_name ''a%20b.html''"
    by (simp add: plain_name_def)
  have a: "access_callback ''/srv/app'' sample_fs ''/srv/app/js/game.js?v=2''
       = Response 200 [(''Content-Type'', ''text/html'')] ''<html>game</html>''"
    by (simp add: access_callback_def readFile_callback_def j fs_eval contentType_index [of "''/srv/app''", simplified j])
  from candidate_path_literal [of "GET ''/js/game.js?v=2''" "''/srv/app''" sample_fs "''a%20b.html''"]
  show ?thesis
    using u p a by (simp add: j GET_def)
qed

section \<open>Failed reads\<close>

text \<open>
  In the general handling a failed read is answered with status 500 and the error
  code in the body, the listener never ends the process, and the server goes on to the
  next request.
\<close>

lemma read_failure_general:
  assumes "\<not> (url req = ''/favicon.ico'' \<and> access_ok fs (faviconPath dirname))"
    and "read_result fs (resolved_path dirname fs req) = Inl code"
  shows "response dirname fs req = Response 500 [] (''Server Error: '' @ code)"
  using assms by (simp add: response_general readFile_callback_def)

lemma general_never_crashes:
  assumes "\<not> (url req = ''/favicon.ico'' \<and> access_ok fs (faviconPath dirname))"
  shows "response dirname fs req \<noteq> Crash code"
  using assms by (simp add: response_general readFile_callback_def split: sum.splits)

lemma serve_continues:
  assumes "\<not> (url req = ''/favicon.ico'' \<and> access_ok fs (faviconPath dirname))"
  shows "serve dirname ((fs, req) # rest) = response dirname fs req # serve dirname rest"
proof (cases "response dirname fs req")
  case (Response st hs body)
  then show ?thesis by simp
next
  case (Crash c)
  with general_never_crashes [OF assms, of c] show ?thesis by simp
qed

text \<open>
  C3. A failed read is to give status 500 with the error code and is never to end the
  server process. The general handling does so (lemmas \<open>read_failure_general\<close> and
  \<open>serve_continues\<close>, and \<open>/secret.html\<close> of the sample below); the favicon special
  case does not: with a favicon asset that exists and cannot be read, the request for
  \<open>/favicon.ico\<close> gets no response, the process ends, and the request after it is
  not served.
\<close>

theorem favicon_read_failure_ends_process:
  "response ''/srv/app'' sample_fs_locked_asset (GET ''/secret.html'')
     = Response 500 [] ''Server Error: EACCES''
   \<and> access_ok sample_fs_locked_asset (faviconPath ''/srv/app'')
   \<and> read_result sample_fs_locked_asset (faviconPath ''/srv/app'') = Inl ''EACCES''
   \<and> response ''/srv/app'' sample_fs_locked_asset (GET ''/favicon.ico'') = Crash ''EACCES''
   \<and> serve ''/srv/app''
        [(sample_fs_locked_asset, GET ''/favicon.ico''), (sample_fs_locked_asset, GET ''/'')]
       = [Crash ''EACCES'']"
  by (simp add: listener_eval path_eval fs_eval)

text \<open>
  C10, amended. When the path a request asks for is an existing directory, the
  existence check succeeds, no fallback to the index file takes place, the read fails
  and the response is status 500 with the error code \<open>EISDIR\<close> in the body, unless
  the request is for \<open>/favicon.ico\<close> while the dedicated favicon asset exists.
\<close>

theorem directory_gives_500:
  assumes "look (join [dirname, if url req = ''/'' then ''index.html'' else url req])
           = Some Directory"
    and "\<not> (url req = ''/favicon.ico'' \<and> look (faviconPath dirname) \<noteq> None)"
  shows "resolved_path dirname (snapshot look) req
           = join [dirname, if url req = ''/'' then ''index.html'' else url req]
         \<and> response dirname (snapshot look) req = Response 500 [] ''Server Error: EISDIR''"
proof -
  let ?p = "join [dirname, if url req = ''/'' then ''index.html'' else url req]"
  have nf: "\<not> (url req = ''/favicon.ico'' \<and> access_ok (snapshot look) (faviconPath dirname))"
    using assms(2) by (simp add: snapshot_def)
  have r: "resolved_path dirname (snapshot look) req = ?p"
    using assms nf by (auto simp add: resolved_path_def snapshot_def)
  have "read_result (snapshot look) ?p = Inl ''EISDIR''"
    using assms(1) by (simp add: snapshot_def read_entry_def)
  then show ?thesis
    using r read_failure_general [OF nf, of "''EISDIR''"] by simp
qed

text \<open>The sample deployment answers \<open>/assets\<close>, a directory, with status 500.\<close>

theorem directory_gives_500_witness:
  "map_of sample_files
     (join [''/srv/app'', if url (GET ''/assets'') = ''/'' then ''index.html''
                          else url (GET ''/assets'')]) = Some Directory
   \<and> \<not> (url (GET ''/assets'') = ''/favicon.ico''
          \<and> map_of sample_files (faviconPath ''/srv/app'') \<noteq> None)
   \<and> response ''/srv/app'' (snapshot (map_of sample_files)) (GET ''/assets'')
       = Response 500 [] ''Server Error: EISDIR''"
proof -
  have j: "join [''/srv/app'', ''/assets''] = ''/srv/app/assets''"
    by (simp add: path_eval)
  have h: "map_of sample_files
     (join [''/srv/app'', if url (GET ''/assets'') = ''/'' then ''index.html''
                          else url (GET ''/assets'')]) = Some Directory"
    "\<not> (url (GET ''/assets'') = ''/favicon.ico''
          \<and> map_of sample_files (faviconPath ''/srv/app'') \<noteq> None)"
    by (simp_all add: GET_def j sample_files_def)
  from directory_gives_500 [OF h] h show ?thesis by simp
qed

text \<open>
  C10 as stated fails when \<open>favicon.ico\<close> at the root is a directory and the favicon
  asset exists: the request for \<open>/favicon.ico\<close> is answered with status 200 from the
  asset.
\<close>

theorem favicon_directory_counterexample:
  "map_of favicon_dir_files (join [''/srv/app'', ''/favicon.ico'']) = Some Directory
   \<and> response ''/srv/app'' (snapshot (map_of favicon_dir_files)) (GET ''/favicon.ico'')
       = Response 200 [(''Content-Type'', ''image/x-icon'')] ''asset-icon''"
  by (simp add: listener_eval path_eval fs_eval)

section \<open>The address the server listens on\<close>

text \<open>
  C7, amended. The server binds to host \<open>0.0.0.0\<close> and port 5000 and to nothing
  else: whatever the environment holds, a start either ends in the server listening
  on \<open>0.0.0.0\<close>, port 5000, or, when the dependencies cannot be installed, a command
  is missing or the address cannot be bound, in the wrapper exiting with status 1. A
  port supplied through the environment has no effect.
\<close>

theorem listen_address_fixed:
  "main env node_modules_exists install dist_exists build node_installed bind =
     (if (node_modules_exists \<or> install = Completed)
         \<and> (dist_exists \<or> build \<noteq> FileNotFoundError)
         \<and> node_installed \<and> bind = Bound
      then Listening ''0.0.0.0'' 5000 else Exit 1)"
  by (cases bind) (auto simp add: main_def server_listen_def HOST_def PORT_def)

text \<open>With \<open>PORT=8080\<close> supplied, a start that binds listens on port 5000, and a
  start whose port is in use exits with status 1.\<close>

theorem listen_address_fixed_witness:
  "main [''PORT'' \<mapsto> ''8080''] True Completed False CalledProcessError True Bound
     = Listening ''0.0.0.0'' 5000
   \<and> main [''PORT'' \<mapsto> ''8080''] True Completed True Completed True
        (ListenError ''EADDRINUSE'') = Exit 1"
  using listen_address_fixed [of "[''PORT'' \<mapsto> ''8080'']" True Completed False
          CalledProcessError True Bound]
        listen_address_fixed [of "[''PORT'' \<mapsto> ''8080'']" True Completed True
          Completed True "ListenError ''EADDRINUSE''"]
  by simp

text \<open>
  C7 as stated fails: with \<open>PORT=8080\<close> in the environment the server listens on
  port 5000.
\<close>

theorem port_override_counterexample:
  "main [''PORT'' \<mapsto> ''8080''] True Completed True Completed True Bound
     = Listening ''0.0.0.0'' 5000
   \<and> (5000 :: nat) \<noteq> 8080"
  by (simp add: main_def server_listen_def HOST_def PORT_def)

end
